theory Spec2Isabelle
  imports Main "HOL-Library.Word"
begin

section \<open>Clock++: the timer registry and the function timer of clock++.hpp\<close>

text \<open>
  The header keeps one process-wide registry \<open>s_start_times\<close> and writes its reports
  to \<open>stderr\<close>. Both are threaded through the model as a record. The readings of
  \<open>Clock::now()\<close> and the value of \<open>pthread_self()\<close> come from outside the header;
  every operation takes them as arguments.
\<close>

subsection \<open>Data model\<close>

text \<open>
  \<open>TimePoint\<close> counts nanoseconds in a signed 64-bit \<open>rep\<close>; \<open>TimePoint{}\<close> is the
  epoch, 0. \<open>int m_line\<close> is 32 bits wide, \<open>long int\<close> thread identities 64 bits.
\<close>

type_synonym TimePoint = "64 word"
type_synonym thread_id = "64 word"

record Timer =
  m_time :: TimePoint
  m_line :: "32 word"

text \<open>A \<open>std::stack<Timer>\<close> is a list whose head is \<open>top()\<close>.\<close>

type_synonym timer_stack = "Timer list"
type_synonym thread_map = "thread_id \<rightharpoonup> timer_stack"
type_synonym registry = "string \<rightharpoonup> thread_map"

record world =
  s_start_times :: registry
  stderr :: "string list"

text \<open>Each element of \<open>stderr\<close> is the text written by one \<open>fprintf\<close> call.\<close>

subsection \<open>Call-site and thread identity\<close>

text \<open>
  \<open>snprintf(buff, n, "%s::%s", file, function)\<close> stores at most \<open>n - 1\<close> characters
  of the formatted text, followed by the terminator.
\<close>

definition snprintf_loc :: "nat \<Rightarrow> string \<Rightarrow> string \<Rightarrow> string" where
  "snprintf_loc n file function = take (n - 1) (file @ ''::'' @ function)"

definition get_location :: "string \<Rightarrow> string \<Rightarrow> string" where
  "get_location file function = snprintf_loc 128 file function"

text \<open>
  The argument is \<open>Some t\<close> when \<open>_PTHREAD_H\<close> is defined and \<open>pthread_self()\<close>
  is \<open>t\<close>, and \<open>None\<close> when the header is compiled without it.
\<close>

definition get_thread_id :: "thread_id option \<Rightarrow> thread_id" where
  "get_thread_id pthread = (case pthread of Some t \<Rightarrow> t | None \<Rightarrow> 0)"

subsection \<open>Access to the registry\<close>

text \<open>
  \<open>s_start_times[location][thread_id]\<close>: \<open>operator[]\<close> of \<open>std::unordered_map\<close>
  inserts a value-initialised entry when the key is absent, at both levels.
\<close>

definition subscript :: "registry \<Rightarrow> string \<Rightarrow> thread_id \<Rightarrow> registry" where
  "subscript r location tid =
     (let m = (case r location of None \<Rightarrow> Map.empty | Some m \<Rightarrow> m)
      in r(location \<mapsto> (case m tid of None \<Rightarrow> m(tid \<mapsto> []) | Some s \<Rightarrow> m)))"

text \<open>The stack stored under a key; a key without an entry has no timers.\<close>

definition stack_at :: "registry \<Rightarrow> string \<Rightarrow> thread_id \<Rightarrow> timer_stack" where
  "stack_at r location tid =
     (case r location of
        None \<Rightarrow> []
      | Some m \<Rightarrow> (case m tid of None \<Rightarrow> [] | Some s \<Rightarrow> s))"

text \<open>Writing through the reference \<open>start_times\<close> obtained from \<open>subscript\<close>.\<close>

definition set_stack :: "registry \<Rightarrow> string \<Rightarrow> thread_id \<Rightarrow> timer_stack \<Rightarrow> registry" where
  "set_stack r location tid s =
     (let m = (case r location of None \<Rightarrow> Map.empty | Some m \<Rightarrow> m)
      in r(location \<mapsto> m(tid \<mapsto> s)))"

subsection \<open>Report lines\<close>

definition digits :: string where
  "digits = ''0123456789abcdef''"

fun dec :: "nat \<Rightarrow> string" where
  "dec n = (if n < 10 then [digits ! n] else dec (n div 10) @ [digits ! (n mod 10)])"

fun hex :: "nat \<Rightarrow> string" where
  "hex n = (if n < 16 then [digits ! n] else hex (n div 16) @ [digits ! (n mod 16)])"

declare dec.simps [simp del] hex.simps [simp del]

text \<open>
  \<open>"[CLOCK]\t%s\tlines %u-%u [thread %lx]:\t%lu ns\n"\<close>: the conversions read their
  arguments as unsigned.
\<close>

definition report_lines ::
  "string \<Rightarrow> 32 word \<Rightarrow> 32 word \<Rightarrow> thread_id \<Rightarrow> 64 word \<Rightarrow> string" where
  "report_lines location start_line line tid diff =
     ''[CLOCK]'' @ [CHR 0x09] @ location @ [CHR 0x09] @ ''lines '' @ dec (unat start_line)
     @ ''-'' @ dec (unat line) @ '' [thread '' @ hex (unat tid) @ '']:'' @ [CHR 0x09]
     @ dec (unat diff) @ '' ns'' @ [CHR 0x0A]"

text \<open>\<open>"[CLOCK]\t%s\tline %u [thread %lx]:\t%lu ns\n"\<close>\<close>

definition report_line :: "string \<Rightarrow> 32 word \<Rightarrow> thread_id \<Rightarrow> 64 word \<Rightarrow> string" where
  "report_line location line tid diff =
     ''[CLOCK]'' @ [CHR 0x09] @ location @ [CHR 0x09] @ ''line '' @ dec (unat line)
     @ '' [thread '' @ hex (unat tid) @ '']:'' @ [CHR 0x09]
     @ dec (unat diff) @ '' ns'' @ [CHR 0x0A]"

subsection \<open>The timer registry: \<open>clock_start\<close> and \<open>clock_stop\<close>\<close>

text \<open>
  \<open>clock_start\<close> up to and including \<open>start_times.emplace(Timer{TimePoint{}, line})\<close>.
\<close>

definition clock_start_emplace ::
  "string \<Rightarrow> string \<Rightarrow> 32 word \<Rightarrow> thread_id option \<Rightarrow> world \<Rightarrow> world" where
  "clock_start_emplace file function line pthread w =
     (let thread_id = get_thread_id pthread;
          location = get_location file function;
          r = subscript (s_start_times w) location thread_id
      in w\<lparr>s_start_times :=
             set_stack r location thread_id
               (\<lparr>m_time = 0, m_line = line\<rparr> # stack_at r location thread_id)\<rparr>)"

text \<open>\<open>start_times.top().m_time = now\<close>; the stack is not empty where the code does it.\<close>

definition set_top_m_time :: "TimePoint \<Rightarrow> timer_stack \<Rightarrow> timer_stack" where
  "set_top_m_time now s = (case s of [] \<Rightarrow> [] | t # rest \<Rightarrow> t\<lparr>m_time := now\<rparr> # rest)"

text \<open>\<open>now\<close> is the reading of \<open>Clock::now()\<close> in the last statement.\<close>

definition clock_start ::
  "string \<Rightarrow> string \<Rightarrow> 32 word \<Rightarrow> thread_id option \<Rightarrow> TimePoint \<Rightarrow> world \<Rightarrow> world" where
  "clock_start file function line pthread now w =
     (let thread_id = get_thread_id pthread;
          location = get_location file function;
          w1 = clock_start_emplace file function line pthread w;
          r1 = s_start_times w1
      in w1\<lparr>s_start_times :=
              set_stack r1 location thread_id
                (set_top_m_time now (stack_at r1 location thread_id))\<rparr>)"

text \<open>
  \<open>now\<close> is the reading of \<open>Clock::now()\<close> in the first statement. The difference
  of the two time points is a signed 64-bit count; the model wraps where C++ leaves the
  overflow undefined. The count is returned as \<open>unsigned long long\<close>, the same 64 bits.
\<close>

definition clock_stop ::
  "string \<Rightarrow> string \<Rightarrow> 32 word \<Rightarrow> thread_id option \<Rightarrow> TimePoint \<Rightarrow> world
     \<Rightarrow> 64 word \<times> world" where
  "clock_stop file function line pthread now w =
     (let thread_id = get_thread_id pthread;
          location = get_location file function;
          r = subscript (s_start_times w) location thread_id
      in case stack_at r location thread_id of
           [] \<Rightarrow> (0, w\<lparr>s_start_times := r\<rparr>)
         | start # rest \<Rightarrow>
             (let diff = now - m_time start
              in (diff,
                  w\<lparr>s_start_times := set_stack r location thread_id rest,
                    stderr := stderr w
                      @ [report_lines location (m_line start) line thread_id diff]\<rparr>)))"

text \<open>The registry is empty and nothing has been written when the process starts.\<close>

definition initial :: world where
  "initial = \<lparr>s_start_times = Map.empty, stderr = []\<rparr>"

subsection \<open>The function timer: \<open>clock_func\<close>\<close>

text \<open>
  \<open>strchr(s, c)\<close> returns a pointer to the first occurrence of \<open>c\<close> in the
  terminated string \<open>s\<close>, the terminator included, or the null pointer. The model
  returns the offset of the occurrence.
\<close>

fun strchr :: "string \<Rightarrow> char \<Rightarrow> nat option" where
  "strchr [] c = (if c = CHR 0x00 then Some 0 else None)"
| "strchr (x # s) c = (if x = c then Some 0 else map_option Suc (strchr s c))"

text \<open>
  A callable runs on the world and either throws (\<open>Inl\<close>) or returns a value
  (\<open>Inr\<close>). \<open>std::bind(callable, params...)\<close> fixes its arguments.
\<close>

type_synonym ('e, 'r) call = "world \<Rightarrow> ('e + 'r) \<times> world"

definition std_bind :: "('p \<Rightarrow> ('e, 'r) call) \<Rightarrow> 'p \<Rightarrow> ('e, 'r) call" where
  "std_bind callable params = callable params"

text \<open>Stored in a \<open>std::function<void()>\<close>, the bound call drops the value it returns.\<close>

definition std_function_void :: "('e, 'r) call \<Rightarrow> ('e, unit) call" where
  "std_function_void f w =
     (case f w of (Inl e, w') \<Rightarrow> (Inl e, w') | (Inr r, w') \<Rightarrow> (Inr (), w'))"

text \<open>
  \<open>start\<close> and \<open>end\<close> are the readings of \<open>Clock::now()\<close> before and after
  \<open>func()\<close>; the second one is taken only when \<open>func()\<close> returns.
\<close>

definition clock_func ::
  "('p \<Rightarrow> ('e, 'r) call) \<Rightarrow> string \<Rightarrow> 32 word \<Rightarrow> string \<Rightarrow> 'p \<Rightarrow> thread_id option
     \<Rightarrow> TimePoint \<Rightarrow> TimePoint \<Rightarrow> world \<Rightarrow> ('e + 64 word) \<times> world" where
  "clock_func callable file line f_name params pthread start end w =
     (let is_lambda = (strchr f_name CHR ''['' \<noteq> None);
          thread_id = get_thread_id pthread;
          location = get_location file (if is_lambda then ''lambda()'' else f_name);
          func = std_function_void (std_bind callable params)
      in case func w of
           (Inl e, w') \<Rightarrow> (Inl e, w')
         | (Inr u, w') \<Rightarrow>
             (let diff = end - start
              in (Inr diff,
                  w'\<lparr>stderr := stderr w' @ [report_line location line thread_id diff]\<rparr>)))"

subsection \<open>Runs of registry operations\<close>

text \<open>Whether \<open>s_start_times\<close> holds a stack, possibly empty, under a key.\<close>

definition has_stack :: "registry \<Rightarrow> string \<Rightarrow> thread_id \<Rightarrow> bool" where
  "has_stack r location tid = (case r location of None \<Rightarrow> False | Some m \<Rightarrow> m tid \<noteq> None)"

text \<open>Every entry of \<open>r\<close>, at both levels, is still an entry of \<open>r'\<close>.\<close>

definition entries_kept :: "registry \<Rightarrow> registry \<Rightarrow> bool" where
  "entries_kept r r' =
     (\<forall>l m. r l = Some m \<longrightarrow> (\<exists>m'. r' l = Some m' \<and> dom m \<subseteq> dom m'))"

text \<open>
  A call of \<open>CLOCK_START()\<close> or \<open>CLOCK_STOP()\<close> with the values it receives, and a
  sequence of such calls run one after the other on the world.
\<close>

datatype op =
    Start string string "32 word" "thread_id option" TimePoint
  | Stop string string "32 word" "thread_id option" TimePoint

fun exec :: "op \<Rightarrow> world \<Rightarrow> world" where
  "exec (Start file function line pthread now) w = clock_start file function line pthread now w"
| "exec (Stop file function line pthread now) w =
     snd (clock_stop file function line pthread now w)"

fun run :: "op list \<Rightarrow> world \<Rightarrow> world" where
  "run [] w = w"
| "run (x # xs) w = run xs (exec x w)"

text \<open>
  The stack under a key holds at least \<open>n\<close> timers before and after every call of
  the run: none of its \<open>n\<close> oldest timers is popped.
\<close>

fun never_below :: "nat \<Rightarrow> string \<Rightarrow> thread_id \<Rightarrow> op list \<Rightarrow> world \<Rightarrow> bool" where
  "never_below n l t [] w = (n \<le> length (stack_at (s_start_times w) l t))"
| "never_below n l t (x # xs) w =
     (n \<le> length (stack_at (s_start_times w) l t) \<and> never_below n l t xs (exec x w))"

text \<open>The \<open>n\<close> oldest timers of a stack.\<close>

definition bottom :: "nat \<Rightarrow> 'a list \<Rightarrow> 'a list" where
  "bottom n s = drop (length s - n) s"

section \<open>Properties\<close>

subsection \<open>Registry access\<close>

lemma stack_at_subscript [simp]:
  "stack_at (subscript r location tid) l t = stack_at r l t"
  by (simp add: stack_at_def subscript_def Let_def split: option.splits)

lemma stack_at_set_stack [simp]:
  "stack_at (set_stack r location tid s) l t =
     (if l = location \<and> t = tid then s else stack_at r l t)"
  by (simp add: stack_at_def set_stack_def Let_def split: option.splits)

lemma stack_at_initial:
  "stack_at (s_start_times initial) l t = []"
  by (simp add: initial_def stack_at_def)

lemma location_example:
  "get_location ''a.cpp'' ''main'' = ''a.cpp::main''"
  by (simp add: get_location_def snprintf_loc_def)

subsection \<open>What start and stop do to a stack and to the stream\<close>

lemma stack_at_clock_start_emplace:
  "stack_at (s_start_times (clock_start_emplace file function line pthread w)) l t =
     (if l = get_location file function \<and> t = get_thread_id pthread
      then \<lparr>m_time = 0, m_line = line\<rparr> # stack_at (s_start_times w) l t
      else stack_at (s_start_times w) l t)"
  by (simp add: clock_start_emplace_def Let_def)

lemma stack_at_clock_start:
  "stack_at (s_start_times (clock_start file function line pthread now w)) l t =
     (if l = get_location file function \<and> t = get_thread_id pthread
      then \<lparr>m_time = now, m_line = line\<rparr> # stack_at (s_start_times w) l t
      else stack_at (s_start_times w) l t)"
  by (simp add: clock_start_def Let_def stack_at_clock_start_emplace set_top_m_time_def)

lemma stderr_clock_start:
  "stderr (clock_start file function line pthread now w) = stderr w"
  by (simp add: clock_start_def clock_start_emplace_def Let_def)

lemma fst_clock_stop:
  "fst (clock_stop file function line pthread now w) =
     (case stack_at (s_start_times w) (get_location file function) (get_thread_id pthread) of
        [] \<Rightarrow> 0
      | t # rest \<Rightarrow> now - m_time t)"
  by (simp add: clock_stop_def Let_def split: list.splits)

lemma stderr_clock_stop:
  "stderr (snd (clock_stop file function line pthread now w)) =
     (case stack_at (s_start_times w) (get_location file function) (get_thread_id pthread) of
        [] \<Rightarrow> stderr w
      | t # rest \<Rightarrow>
          stderr w @ [report_lines (get_location file function) (m_line t) line
                        (get_thread_id pthread) (now - m_time t)])"
  by (simp add: clock_stop_def Let_def split: list.splits)

lemma stack_at_clock_stop:
  "stack_at (s_start_times (snd (clock_stop file function line pthread now w))) l t =
     (if l = get_location file function \<and> t = get_thread_id pthread
      then tl (stack_at (s_start_times w) l t)
      else stack_at (s_start_times w) l t)"
  by (simp add: clock_stop_def Let_def split: list.splits)

text \<open>
  When the later reading is not before the earlier one, the unsigned value of the
  wrapped difference is the true difference.
\<close>

lemma uint_diff:
  fixes s e :: "64 word"
  assumes "sint s \<le> sint e"
  shows "uint (e - s) = sint e - sint s"
proof -
  have b: "sint e < 2 ^ 63" "- (2 ^ 63) \<le> sint s"
    using sint_lt [of e] sint_ge [of s] by simp_all
  have "e - s = word_of_int (sint e - sint s)"
    by simp
  then have "uint (e - s) = (sint e - sint s) mod 2 ^ 64"
    by (simp only: uint_word_of_int) simp
  also have "\<dots> = sint e - sint s"
    using assms b by (intro mod_pos_pos_trivial) simp_all
  finally show ?thesis .
qed

lemma report_example:
  "report_lines ''a.cpp::main'' 10 12 0 1300 =
     ''[CLOCK]'' @ [CHR 0x09] @ ''a.cpp::main'' @ [CHR 0x09] @ ''lines 10-12 [thread 0]:''
       @ [CHR 0x09] @ ''1300 ns'' @ [CHR 0x0A]"
  by code_simp

subsection \<open>Unmatched stop\<close>

text \<open>
  C1: a stop on a (call-site, thread) key whose stack holds no timing interval returns
  exactly 0 and writes nothing to the diagnostic stream.
\<close>

theorem clock_stop_unmatched:
  assumes "stack_at (s_start_times w) (get_location file function) (get_thread_id pthread) = []"
  shows "fst (clock_stop file function line pthread now w) = 0
       \<and> stderr (snd (clock_stop file function line pthread now w)) = stderr w"
  using assms by (simp add: clock_stop_def Let_def)

theorem clock_stop_unmatched_witness:
  "stack_at (s_start_times initial) (get_location ''a.cpp'' ''main'') (get_thread_id None) = []
   \<and> fst (clock_stop ''a.cpp'' ''main'' 12 None 7 initial) = 0
   \<and> stderr (snd (clock_stop ''a.cpp'' ''main'' 12 None 7 initial)) = []"
  using clock_stop_unmatched [of initial "''a.cpp''" "''main''" None 12 7]
  by (simp add: stack_at_initial) (simp add: initial_def)

subsection \<open>Matched stop\<close>

text \<open>
  C2: a stop on a key whose stack is not empty pops the timing interval on top of the
  stack, returns the stop reading minus that interval's start timestamp, a value that is
  not negative and that is the true difference whenever the clock has not gone backwards,
  and writes exactly one report line to the diagnostic stream.
\<close>

theorem clock_stop_matched:
  assumes "stack_at (s_start_times w) (get_location file function) (get_thread_id pthread)
             = t # rest"
  shows "stack_at (s_start_times (snd (clock_stop file function line pthread now w)))
             (get_location file function) (get_thread_id pthread) = rest
       \<and> fst (clock_stop file function line pthread now w) = now - m_time t
       \<and> 0 \<le> uint (fst (clock_stop file function line pthread now w))
       \<and> (sint (m_time t) \<le> sint now \<longrightarrow>
            uint (fst (clock_stop file function line pthread now w))
              = sint now - sint (m_time t))
       \<and> stderr (snd (clock_stop file function line pthread now w))
           = stderr w @ [report_lines (get_location file function) (m_line t) line
                           (get_thread_id pthread) (now - m_time t)]"
  using assms
  by (simp add: fst_clock_stop stderr_clock_stop stack_at_clock_stop uint_diff)

theorem clock_stop_matched_witness:
  "stack_at (s_start_times (clock_start ''a.cpp'' ''main'' 10 None 100 initial))
     (get_location ''a.cpp'' ''main'') (get_thread_id None) = [\<lparr>m_time = 100, m_line = 10\<rparr>]
   \<and> sint (100 :: 64 word) \<le> sint (1400 :: 64 word)
   \<and> stack_at (s_start_times (snd (clock_stop ''a.cpp'' ''main'' 12 None 1400
        (clock_start ''a.cpp'' ''main'' 10 None 100 initial))))
        ''a.cpp::main'' 0 = []
   \<and> uint (fst (clock_stop ''a.cpp'' ''main'' 12 None 1400
        (clock_start ''a.cpp'' ''main'' 10 None 100 initial))) = 1300
   \<and> stderr (snd (clock_stop ''a.cpp'' ''main'' 12 None 1400
        (clock_start ''a.cpp'' ''main'' 10 None 100 initial)))
      = [report_lines ''a.cpp::main'' 10 12 0 1300]"
proof -
  have s: "stack_at (s_start_times (clock_start ''a.cpp'' ''main'' 10 None 100 initial))
     (get_location ''a.cpp'' ''main'') (get_thread_id None) = [\<lparr>m_time = 100, m_line = 10\<rparr>]"
    by (simp add: stack_at_clock_start stack_at_initial)
  have tid: "get_thread_id None = 0"
    by (simp add: get_thread_id_def)
  show ?thesis
    using s clock_stop_matched [OF s, of 12 1400]
    by (simp add: location_example tid stderr_clock_start initial_def)
qed

subsection \<open>Nesting\<close>

text \<open>
  C3: on one (call-site, thread) key, after start A followed by start B the next stop
  pops and reports interval B (its start line and its timestamp), and the stop after
  that pops and reports interval A, leaving the stack as it was before A.
\<close>

theorem nested_lifo:
  "(let w1 = clock_start file function lineA pthread tA w;
        w2 = clock_start file function lineB pthread tB w1;
        (d1, w3) = clock_stop file function line1 pthread e1 w2;
        (d2, w4) = clock_stop file function line2 pthread e2 w3;
        location = get_location file function;
        tid = get_thread_id pthread
    in d1 = e1 - tB
     \<and> stderr w3 = stderr w @ [report_lines location lineB line1 tid (e1 - tB)]
     \<and> stack_at (s_start_times w3) location tid
         = \<lparr>m_time = tA, m_line = lineA\<rparr> # stack_at (s_start_times w) location tid
     \<and> d2 = e2 - tA
     \<and> stderr w4 = stderr w3 @ [report_lines location lineA line2 tid (e2 - tA)]
     \<and> stack_at (s_start_times w4) location tid = stack_at (s_start_times w) location tid)"
  by (simp add: Let_def split_beta fst_clock_stop stderr_clock_stop stack_at_clock_stop
        stack_at_clock_start stderr_clock_start)

subsection \<open>Call-site identity\<close>

lemma get_location_take:
  "get_location file function = take 127 (file @ ''::'' @ function)"
  by (simp add: get_location_def snprintf_loc_def)

lemma get_location_short:
  assumes "length file + length function \<le> 125"
  shows "get_location file function = file @ ''::'' @ function"
proof -
  have "length (file @ ''::'' @ function) \<le> 127"
    using assms by simp
  then show ?thesis
    unfolding get_location_take by (rule take_all)
qed

text \<open>
  C4, as the code has it: the call-site identity is the first 127 characters of the file
  name, the separator \<open>::\<close> and the function signature; it is the whole concatenation
  when that fits, and two call sites whose concatenations fit get the same identity only
  when the concatenations are equal.
\<close>

theorem get_location_truncates:
  "get_location file function = take 127 (file @ ''::'' @ function)
   \<and> (length file + length function \<le> 125 \<longrightarrow>
        get_location file function = file @ ''::'' @ function)
   \<and> (length file + length function \<le> 125 \<and> length file' + length function' \<le> 125
        \<and> get_location file function = get_location file' function' \<longrightarrow>
        file @ ''::'' @ function = file' @ ''::'' @ function')"
  using get_location_short [of "file" "function"] get_location_short [of file' function']
  by (auto simp: get_location_take)

theorem get_location_truncates_witness:
  "length ''a.cpp'' + length ''ns::f()'' \<le> 125
   \<and> length ''a.cpp::ns'' + length ''f()'' \<le> 125
   \<and> get_location ''a.cpp'' ''ns::f()'' = ''a.cpp::ns::f()''
   \<and> get_location ''a.cpp'' ''ns::f()'' = get_location ''a.cpp::ns'' ''f()''
   \<and> ''a.cpp'' @ ''::'' @ ''ns::f()'' = ''a.cpp::ns'' @ ''::'' @ ''f()''"
  using get_location_truncates [of "''a.cpp''" "''ns::f()''" "''a.cpp::ns''" "''f()''"]
  by (simp add: get_location_def snprintf_loc_def)

text \<open>
  Two functions of one file whose signatures agree on their first 120 characters get the
  same identity, which is neither of the two concatenations.
\<close>

theorem get_location_collision:
  "get_location ''a.cpp'' (replicate 130 CHR ''x'' @ ''1'')
     = get_location ''a.cpp'' (replicate 130 CHR ''x'' @ ''2'')
   \<and> ''a.cpp'' @ ''::'' @ replicate 130 CHR ''x'' @ ''1''
     \<noteq> ''a.cpp'' @ ''::'' @ replicate 130 CHR ''x'' @ ''2''
   \<and> get_location ''a.cpp'' (replicate 130 CHR ''x'' @ ''1'')
     \<noteq> ''a.cpp'' @ ''::'' @ replicate 130 CHR ''x'' @ ''1''"
  by code_simp

subsection \<open>The life of a timer\<close>

lemma bottom_step:
  assumes "n \<le> length s" "n \<le> length s'" "s' = s \<or> s' = x # s \<or> s' = tl s"
  shows "bottom n s' = bottom n s"
proof -
  consider "s' = s" | "s' = x # s" | "s' = tl s" using assms(3) by blast
  then show ?thesis
  proof cases
    case 1
    then show ?thesis by simp
  next
    case 2
    then show ?thesis using assms(1) by (simp add: bottom_def Suc_diff_le)
  next
    case 3
    show ?thesis
    proof (cases s)
      case Nil
      then show ?thesis using 3 by simp
    next
      case (Cons y ys)
      then show ?thesis using 3 assms(2) by (simp add: bottom_def Suc_diff_le)
    qed
  qed
qed

lemma stack_at_exec:
  "stack_at (s_start_times (exec x w)) l t = stack_at (s_start_times w) l t
   \<or> (\<exists>T. stack_at (s_start_times (exec x w)) l t = T # stack_at (s_start_times w) l t)
   \<or> stack_at (s_start_times (exec x w)) l t = tl (stack_at (s_start_times w) l t)"
  by (cases x) (simp_all add: stack_at_clock_start stack_at_clock_stop)

lemma never_below_here:
  "never_below n l t xs w \<Longrightarrow> n \<le> length (stack_at (s_start_times w) l t)"
  by (cases xs) simp_all

lemma bottom_run:
  "never_below n l t xs w \<Longrightarrow>
     bottom n (stack_at (s_start_times (run xs w)) l t)
       = bottom n (stack_at (s_start_times w) l t)"
proof (induction xs arbitrary: w)
  case Nil
  then show ?case by simp
next
  case (Cons x xs)
  from Cons.prems have here: "n \<le> length (stack_at (s_start_times w) l t)"
    and rest: "never_below n l t xs (exec x w)"
    by simp_all
  from rest have there: "n \<le> length (stack_at (s_start_times (exec x w)) l t)"
    by (rule never_below_here)
  have "bottom n (stack_at (s_start_times (exec x w)) l t)
          = bottom n (stack_at (s_start_times w) l t)"
    using stack_at_exec [of x w l t] here there by (auto intro: bottom_step)
  with Cons.IH [OF rest] show ?case by simp
qed

lemma bottom_all: "bottom (length s) s = s"
  by (simp add: bottom_def)

lemma bottom_suffix: "n \<le> length s \<Longrightarrow> \<exists>newer. s = newer @ bottom n s"
  by (metis append_take_drop_id bottom_def)

text \<open>
  C5, as the code has it: start pushes the timer with its line and the epoch as
  timestamp, and then assigns the clock reading to the timestamp of the timer it has
  pushed. Once start has returned, whatever starts and stops follow on any keys, as long
  as the timer has not been popped it sits in its stack with that timestamp and that
  line, above the timers that were there before it.
\<close>

theorem timer_fixed_after_start:
  assumes "never_below (Suc (length (stack_at (s_start_times w) (get_location file function)
               (get_thread_id pthread))))
             (get_location file function) (get_thread_id pthread) xs
             (clock_start file function line pthread now w)"
  shows "stack_at (s_start_times (clock_start_emplace file function line pthread w))
             (get_location file function) (get_thread_id pthread)
           = \<lparr>m_time = 0, m_line = line\<rparr>
               # stack_at (s_start_times w) (get_location file function) (get_thread_id pthread)
       \<and> stack_at (s_start_times (clock_start file function line pthread now w))
             (get_location file function) (get_thread_id pthread)
           = \<lparr>m_time = now, m_line = line\<rparr>
               # stack_at (s_start_times w) (get_location file function) (get_thread_id pthread)
       \<and> (\<exists>newer.
             stack_at (s_start_times (run xs (clock_start file function line pthread now w)))
               (get_location file function) (get_thread_id pthread)
             = newer @ \<lparr>m_time = now, m_line = line\<rparr>
                 # stack_at (s_start_times w) (get_location file function)
                     (get_thread_id pthread))"
proof -
  let ?loc = "get_location file function" and ?tid = "get_thread_id pthread"
  let ?old = "stack_at (s_start_times w) ?loc ?tid"
  let ?w1 = "clock_start file function line pthread now w"
  let ?s1 = "stack_at (s_start_times ?w1) ?loc ?tid"
  let ?s2 = "stack_at (s_start_times (run xs ?w1)) ?loc ?tid"
  have s1: "?s1 = \<lparr>m_time = now, m_line = line\<rparr> # ?old"
    by (simp add: stack_at_clock_start)
  have b: "bottom (Suc (length ?old)) ?s2 = bottom (Suc (length ?old)) ?s1"
    using assms by (rule bottom_run)
  have "bottom (Suc (length ?old)) ?s1 = ?s1"
    using bottom_all [of ?s1] by (simp add: s1)
  with b have b2: "bottom (Suc (length ?old)) ?s2 = \<lparr>m_time = now, m_line = line\<rparr> # ?old"
    by (simp add: s1)
  have "Suc (length ?old) \<le> length ?s2"
  proof -
    have "length (bottom (Suc (length ?old)) ?s2) = Suc (length ?old)"
      by (simp add: b2)
    then show ?thesis by (simp add: bottom_def)
  qed
  then obtain newer where "?s2 = newer @ bottom (Suc (length ?old)) ?s2"
    using bottom_suffix by blast
  then have "\<exists>newer. ?s2 = newer @ \<lparr>m_time = now, m_line = line\<rparr> # ?old"
    using b2 by auto
  then show ?thesis
    by (simp add: stack_at_clock_start_emplace stack_at_clock_start)
qed

theorem timer_fixed_after_start_witness:
  "never_below (Suc (length (stack_at (s_start_times initial) (get_location ''a.cpp'' ''main'')
        (get_thread_id None))))
     (get_location ''a.cpp'' ''main'') (get_thread_id None)
     [Start ''a.cpp'' ''main'' 11 None 200, Stop ''b.cpp'' ''f'' 5 None 250,
      Stop ''a.cpp'' ''main'' 12 None 300]
     (clock_start ''a.cpp'' ''main'' 10 None 100 initial)
   \<and> stack_at (s_start_times (run
        [Start ''a.cpp'' ''main'' 11 None 200, Stop ''b.cpp'' ''f'' 5 None 250,
         Stop ''a.cpp'' ''main'' 12 None 300]
        (clock_start ''a.cpp'' ''main'' 10 None 100 initial)))
        (get_location ''a.cpp'' ''main'') (get_thread_id None)
      = [\<lparr>m_time = 100, m_line = 10\<rparr>]"
proof -
  have loc: "get_location ''b.cpp'' ''f'' \<noteq> get_location ''a.cpp'' ''main''"
    by (simp add: get_location_def snprintf_loc_def)
  have h: "never_below (Suc (length (stack_at (s_start_times initial)
        (get_location ''a.cpp'' ''main'') (get_thread_id None))))
     (get_location ''a.cpp'' ''main'') (get_thread_id None)
     [Start ''a.cpp'' ''main'' 11 None 200, Stop ''b.cpp'' ''f'' 5 None 250,
      Stop ''a.cpp'' ''main'' 12 None 300]
     (clock_start ''a.cpp'' ''main'' 10 None 100 initial)"
    using loc by (simp add: stack_at_clock_start stack_at_clock_stop stack_at_initial)
  show ?thesis
    using h timer_fixed_after_start [OF h] loc
    by (simp add: stack_at_clock_start stack_at_clock_stop stack_at_initial)
qed

text \<open>
  The timer that \<open>emplace\<close> has put on the stack carries the epoch; when start
  returns, the same timer carries the clock reading.
\<close>

theorem timer_assigned_after_push:
  "m_time (hd (stack_at (s_start_times
       (clock_start_emplace ''a.cpp'' ''main'' 10 None initial)) ''a.cpp::main'' 0))
   \<noteq> m_time (hd (stack_at (s_start_times
       (clock_start ''a.cpp'' ''main'' 10 None 100 initial)) ''a.cpp::main'' 0))"
  by (simp add: stack_at_clock_start_emplace stack_at_clock_start location_example
        get_thread_id_def)

subsection \<open>The function timer\<close>

lemma strchr_None: "strchr s c = None \<longleftrightarrow> c \<notin> set s \<and> c \<noteq> CHR 0x00"
  by (induction s) auto

lemma strchr_finds:
  "strchr s c = Some i \<Longrightarrow> i \<le> length s \<and> (s @ [CHR 0x00]) ! i = c \<and> c \<notin> set (take i s)"
proof (induction s arbitrary: i)
  case Nil
  then show ?case by (simp split: if_splits)
next
  case (Cons x s)
  then show ?case
    by (cases "x = c") (auto simp: nth_Cons')
qed

lemma clock_func_throws:
  "callable params w = (Inl e, w') \<Longrightarrow>
     clock_func callable file line f_name params pthread start end w = (Inl e, w')"
  by (simp add: clock_func_def std_function_void_def std_bind_def Let_def)

lemma clock_func_returns:
  "callable params w = (Inr r, w') \<Longrightarrow>
     clock_func callable file line f_name params pthread start end w =
       (Inr (end - start),
        w'\<lparr>stderr := stderr w' @
           [report_line
              (get_location file (if CHR ''['' \<in> set f_name then ''lambda()'' else f_name))
              line (get_thread_id pthread) (end - start)]\<rparr>)"
  by (simp add: clock_func_def std_function_void_def std_bind_def Let_def strchr_None)

lemma clock_func_registry:
  "s_start_times (snd (clock_func callable file line f_name params pthread start end w))
     = s_start_times (snd (callable params w))"
proof (cases "callable params w")
  case (Pair a w')
  then show ?thesis
    by (cases a) (simp_all add: clock_func_throws clock_func_returns)
qed

lemma std_function_void_idem:
  "std_function_void (std_function_void f) = std_function_void f"
  by (rule ext) (simp add: std_function_void_def split: prod.splits sum.splits)

lemma clock_func_void:
  "clock_func (\<lambda>p. std_function_void (callable p)) file line f_name params pthread start end w
     = clock_func callable file line f_name params pthread start end w"
  by (simp add: clock_func_def std_bind_def std_function_void_idem)

text \<open>
  C6: an exception raised by the callable leaves \<open>clock_func\<close> as the same exception,
  with the world as the callable left it and no report line added; \<open>clock_func\<close> adds
  to the diagnostic stream only when the callable has returned a value.
\<close>

theorem clock_func_exception:
  "(callable params w = (Inl e, w') \<longrightarrow>
      clock_func callable file line f_name params pthread start end w = (Inl e, w'))
   \<and> (stderr (snd (clock_func callable file line f_name params pthread start end w))
        \<noteq> stderr (snd (callable params w)) \<longrightarrow>
      (\<exists>r. fst (callable params w) = Inr r))"
proof (cases "callable params w")
  case (Pair a w'')
  then show ?thesis
    by (cases a) (simp_all add: clock_func_throws clock_func_returns)
qed

theorem clock_func_exception_witness:
  "(\<lambda>(n::nat) w. (Inl ''boom'', w) :: (string + nat) \<times> world) 5 initial
      = (Inl ''boom'', initial)
   \<and> clock_func (\<lambda>(n::nat) w. (Inl ''boom'', w) :: (string + nat) \<times> world)
        ''a.cpp'' 31 ''foo()'' 5 None 100 900 initial = (Inl ''boom'', initial)
   \<and> stderr (snd (clock_func (\<lambda>(n::nat) w. (Inr (n + 1), w) :: (string + nat) \<times> world)
        ''a.cpp'' 31 ''foo()'' 5 None 100 900 initial))
      \<noteq> stderr (snd ((\<lambda>(n::nat) w. (Inr (n + 1), w) :: (string + nat) \<times> world) 5 initial))
   \<and> fst ((\<lambda>(n::nat) w. (Inr (n + 1), w) :: (string + nat) \<times> world) 5 initial) = Inr 6"
  using
    clock_func_exception [of "\<lambda>(n::nat) w. (Inl ''boom'', w) :: (string + nat) \<times> world"
      5 initial "''boom''" initial "''a.cpp''" 31 "''foo()''" None 100 900]
    clock_func_exception [of "\<lambda>(n::nat) w. (Inr (n + 1), w) :: (string + nat) \<times> world"
      5 initial "''boom''" initial "''a.cpp''" 31 "''foo()''" None 100 900]
  by (simp add: clock_func_returns)

text \<open>
  C7: \<open>clock_func\<close> takes the callable for anonymous exactly when its display name
  contains the character \<open>[\<close>; the call-site identity in its report is built from the
  label \<open>lambda()\<close> in that case and from the display name otherwise.
\<close>

theorem clock_func_label:
  assumes "callable params w = (Inr r, w')"
  shows "stderr (snd (clock_func callable file line f_name params pthread start end w)) =
           stderr w' @
           [report_line
              (get_location file (if CHR ''['' \<in> set f_name then ''lambda()'' else f_name))
              line (get_thread_id pthread) (end - start)]"
  using assms by (simp add: clock_func_returns)

theorem clock_func_label_witness:
  "(\<lambda>(p::bool) w. (Inr (1::int), w) :: (string + int) \<times> world) False initial = (Inr 1, initial)
   \<and> stderr (snd (clock_func (\<lambda>(p::bool) w. (Inr (1::int), w) :: (string + int) \<times> world)
        ''source.cpp'' 33 ''[&](bool x) -> int { return 1; }()'' False None 100 900 initial))
      = [report_line ''source.cpp::lambda()'' 33 0 800]
   \<and> stderr (snd (clock_func (\<lambda>(p::bool) w. (Inr (1::int), w) :: (string + int) \<times> world)
        ''source.cpp'' 31 ''foo()'' False None 100 900 initial))
      = [report_line ''source.cpp::foo()'' 31 0 800]"
  using
    clock_func_label [of "\<lambda>(p::bool) w. (Inr (1::int), w) :: (string + int) \<times> world"
      False initial 1 initial "''source.cpp''" 33 "''[&](bool x) -> int { return 1; }()''"
      None 100 900]
    clock_func_label [of "\<lambda>(p::bool) w. (Inr (1::int), w) :: (string + int) \<times> world"
      False initial 1 initial "''source.cpp''" 31 "''foo()''" None 100 900]
  by (simp add: get_location_def snprintf_loc_def get_thread_id_def initial_def)

text \<open>
  C10: when the callable returns a value, \<open>clock_func\<close> returns the difference of the
  two clock readings and nothing of that value: the callable and the same callable with
  its value dropped give the same result and the same world.
\<close>

theorem clock_func_discards_result:
  assumes "callable params w = (Inr r, w')"
  shows "fst (clock_func callable file line f_name params pthread start end w)
           = Inr (end - start)
       \<and> clock_func callable file line f_name params pthread start end w
           = clock_func (\<lambda>p. std_function_void (callable p)) file line f_name params pthread
               start end w"
  using assms by (simp add: clock_func_returns clock_func_void)

theorem clock_func_discards_result_witness:
  "(\<lambda>(p::nat) w. (Inr (p + 37), w) :: (string + nat) \<times> world) 5 initial = (Inr 42, initial)
   \<and> fst (clock_func (\<lambda>(p::nat) w. (Inr (p + 37), w) :: (string + nat) \<times> world)
        ''source.cpp'' 31 ''foo()'' 5 None 100 900 initial) = Inr 800"
proof -
  have "fst (clock_func (\<lambda>(p::nat) w. (Inr (p + 37), w) :: (string + nat) \<times> world)
        ''source.cpp'' 31 ''foo()'' 5 None 100 900 initial) = Inr (900 - 100)"
    by (rule clock_func_discards_result
          [of "\<lambda>(p::nat) w. (Inr (p + 37), w) :: (string + nat) \<times> world"
             5 initial 42 initial "''source.cpp''" 31 "''foo()''" None 100 900,
           THEN conjunct1]) simp
  then show ?thesis by simp
qed

subsection \<open>Entries of the registry\<close>

lemma entries_kept_trans:
  "entries_kept r r' \<Longrightarrow> entries_kept r' r'' \<Longrightarrow> entries_kept r r''"
  unfolding entries_kept_def by (meson subset_trans)

lemma entries_kept_subscript: "entries_kept r (subscript r location tid)"
  by (auto simp: entries_kept_def subscript_def Let_def split: option.splits)

lemma entries_kept_set_stack: "entries_kept r (set_stack r location tid s)"
  by (auto simp: entries_kept_def set_stack_def Let_def split: option.splits)

lemma entries_kept_clock_start_emplace:
  "entries_kept (s_start_times w)
     (s_start_times (clock_start_emplace file function line pthread w))"
  by (simp add: clock_start_emplace_def Let_def
        entries_kept_trans [OF entries_kept_subscript entries_kept_set_stack])

lemma entries_kept_clock_start:
  "entries_kept (s_start_times w)
     (s_start_times (clock_start file function line pthread now w))"
  by (simp add: clock_start_def Let_def
        entries_kept_trans [OF entries_kept_clock_start_emplace entries_kept_set_stack])

lemma entries_kept_clock_stop:
  "entries_kept (s_start_times w)
     (s_start_times (snd (clock_stop file function line pthread now w)))"
  by (simp add: clock_stop_def Let_def entries_kept_subscript
        entries_kept_trans [OF entries_kept_subscript entries_kept_set_stack]
        split: list.splits)

text \<open>
  C8: an entry of the registry for a call site, and each per-thread stack under it, is
  still there after a start and after a stop, whatever their key; \<open>clock_func\<close>
  leaves the registry as the callable left it.
\<close>

theorem registry_entries_persist:
  assumes "s_start_times w l = Some m"
  shows "(\<exists>m'. s_start_times (clock_start file function line pthread now w) l = Some m'
            \<and> dom m \<subseteq> dom m')
       \<and> (\<exists>m'. s_start_times (snd (clock_stop file function line pthread now w)) l = Some m'
            \<and> dom m \<subseteq> dom m')
       \<and> s_start_times (snd (clock_func callable file line f_name params pthread start end w))
           = s_start_times (snd (callable params w))"
  using assms entries_kept_clock_start [of w "file" "function" line pthread now]
    entries_kept_clock_stop [of w "file" "function" line pthread now]
  by (simp add: entries_kept_def clock_func_registry)

theorem registry_entries_persist_witness:
  "s_start_times \<lparr>s_start_times = [''a.cpp::main'' \<mapsto> [0 \<mapsto> []]], stderr = []\<rparr>
       ''a.cpp::main'' = Some [0 \<mapsto> []]
   \<and> (\<exists>m'. s_start_times (clock_start ''b.cpp'' ''f'' 3 None 50
               \<lparr>s_start_times = [''a.cpp::main'' \<mapsto> [0 \<mapsto> []]], stderr = []\<rparr>)
             ''a.cpp::main'' = Some m' \<and> 0 \<in> dom m')
   \<and> (\<exists>m'. s_start_times (snd (clock_stop ''a.cpp'' ''main'' 12 None 50
               \<lparr>s_start_times = [''a.cpp::main'' \<mapsto> [0 \<mapsto> []]], stderr = []\<rparr>))
             ''a.cpp::main'' = Some m' \<and> 0 \<in> dom m')"
proof -
  let ?w = "\<lparr>s_start_times = [''a.cpp::main'' \<mapsto> [0 \<mapsto> []]], stderr = []\<rparr>"
  have h: "s_start_times ?w ''a.cpp::main'' = Some [0 \<mapsto> []]"
    by simp
  have a: "\<exists>m'. s_start_times (clock_start ''b.cpp'' ''f'' 3 None 50 ?w) ''a.cpp::main'' = Some m'
             \<and> dom [(0 :: thread_id) \<mapsto> ([] :: timer_stack)] \<subseteq> dom m'"
    using registry_entries_persist [OF h] by (rule conjunct1)
  have b: "\<exists>m'. s_start_times (snd (clock_stop ''a.cpp'' ''main'' 12 None 50 ?w)) ''a.cpp::main''
               = Some m'
             \<and> dom [(0 :: thread_id) \<mapsto> ([] :: timer_stack)] \<subseteq> dom m'"
    using registry_entries_persist [OF h, THEN conjunct2] by (rule conjunct1)
  show ?thesis
    using h a b by auto
qed

subsection \<open>What an unmatched stop leaves behind\<close>

lemma has_stack_subscript: "has_stack (subscript r location tid) location tid"
  by (simp add: has_stack_def subscript_def Let_def split: option.splits)

lemma subscript_changes:
  "\<not> has_stack r location tid \<Longrightarrow> subscript r location tid \<noteq> r"
  using has_stack_subscript [of r location tid] by auto

lemma subscript_absent:
  "\<not> has_stack r location tid \<Longrightarrow>
     subscript r location tid =
       r(location \<mapsto> (case r location of None \<Rightarrow> Map.empty | Some m \<Rightarrow> m)(tid \<mapsto> []))"
  by (auto simp: has_stack_def subscript_def Let_def split: option.splits)

lemma stack_at_absent: "\<not> has_stack r location tid \<Longrightarrow> stack_at r location tid = []"
  by (auto simp: has_stack_def stack_at_def split: option.splits)

text \<open>
  C9: a stop on a key under which the registry holds no stack returns 0 and writes
  nothing, and it changes the registry: afterwards the registry holds an entry for the
  call site and, under it, an empty stack for the thread.
\<close>

theorem clock_stop_unmatched_inserts:
  assumes "\<not> has_stack (s_start_times w) (get_location file function) (get_thread_id pthread)"
  shows "fst (clock_stop file function line pthread now w) = 0
       \<and> stderr (snd (clock_stop file function line pthread now w)) = stderr w
       \<and> has_stack (s_start_times (snd (clock_stop file function line pthread now w)))
           (get_location file function) (get_thread_id pthread)
       \<and> s_start_times (snd (clock_stop file function line pthread now w)) =
           (s_start_times w)(get_location file function \<mapsto>
              (case s_start_times w (get_location file function) of
                 None \<Rightarrow> Map.empty | Some m \<Rightarrow> m)(get_thread_id pthread \<mapsto> []))
       \<and> s_start_times (snd (clock_stop file function line pthread now w)) \<noteq> s_start_times w"
proof -
  let ?loc = "get_location file function" and ?tid = "get_thread_id pthread"
  have e: "stack_at (subscript (s_start_times w) ?loc ?tid) ?loc ?tid = []"
    using assms by (simp add: stack_at_absent)
  have r: "snd (clock_stop file function line pthread now w)
             = w\<lparr>s_start_times := subscript (s_start_times w) ?loc ?tid\<rparr>"
    and z: "fst (clock_stop file function line pthread now w) = 0"
    using e by (simp_all add: clock_stop_def Let_def)
  show ?thesis
    using assms
    by (simp add: r z has_stack_subscript subscript_changes subscript_absent [symmetric])
qed

theorem clock_stop_unmatched_inserts_witness:
  "\<not> has_stack (s_start_times initial) (get_location ''a.cpp'' ''main'') (get_thread_id None)
   \<and> fst (clock_stop ''a.cpp'' ''main'' 12 None 7 initial) = 0
   \<and> s_start_times (snd (clock_stop ''a.cpp'' ''main'' 12 None 7 initial))
       = [''a.cpp::main'' \<mapsto> [0 \<mapsto> []]]
   \<and> s_start_times (snd (clock_stop ''a.cpp'' ''main'' 12 None 7 initial))
       \<noteq> s_start_times initial"
proof -
  have h: "\<not> has_stack (s_start_times initial) (get_location ''a.cpp'' ''main'')
             (get_thread_id None)"
    by (simp add: has_stack_def initial_def)
  have tid: "get_thread_id None = 0"
    by (simp add: get_thread_id_def)
  show ?thesis
    using h clock_stop_unmatched_inserts [OF h, of 12 7]
    by (simp add: location_example tid) (simp add: initial_def)
qed

end
